theory Spec2Isabelle
  imports Main
begin

section \<open>Raised faults and asynchronous outcomes\<close>

text \<open>
  An \<open>Error\<close> instance of the source (\<open>errors.ts\<close> builds its subclasses on it) has a
  \<open>name\<close> and a \<open>message\<close>. A value thrown by user code is either such an instance or
  any other JavaScript value; the buses only ask \<open>error instanceof Error\<close> of it, so a
  value that is not an \<open>Error\<close> is kept as the text \<open>String\<close> gives for it.
\<close>

record js_error =
  name :: string
  message :: string

datatype thrown = ErrorInstance js_error | NonError string

text \<open>\<open>new Error(message)\<close>.\<close>

definition Error :: "string \<Rightarrow> js_error" where
  "Error msg = \<lparr>name = ''Error'', message = msg\<rparr>"

text \<open>
  \<open>errors.ts\<close>: \<open>CQRError\<close> calls \<open>super(message)\<close> and sets its name;
  \<open>HandlerNotFoundError\<close> calls \<open>super\<close> with the formatted message and sets its name.
\<close>

definition CQRError :: "string \<Rightarrow> js_error" where
  "CQRError msg = (Error msg)\<lparr>name := ''CQRError''\<rparr>"

definition HandlerNotFoundError :: "string \<Rightarrow> string \<Rightarrow> js_error" where
  "HandlerNotFoundError type identifier =
     (CQRError (''No handler registered for '' @ type @ '': '' @ identifier))
       \<lparr>name := ''HandlerNotFoundError''\<rparr>"

text \<open>
  A call of the source may change shared state (a log, a counter) and either returns a
  value or raises. A promise that is awaited settles the same way: it resolves with a
  value (\<open>Inr\<close>) or rejects with the thrown value (\<open>Inl\<close>). The state \<open>'s\<close> is
  threaded through every call.
\<close>

type_synonym ('s, 'a) promise = "'s \<Rightarrow> (thrown + 'a) \<times> 's"

section \<open>The Result model (\<open>result.ts\<close>)\<close>

text \<open>
  \<open>Err\<close> holds a payload of type \<open>TError\<close>, by default \<open>string[]\<close>. \<open>getErrors\<close> and
  \<open>unwrap\<close> ask \<open>Array.isArray\<close> of it: \<open>ErrorArray\<close> is a payload that is an array of
  strings, \<open>ErrorOther s\<close> one that is not an array and that \<open>String\<close> turns into \<open>s\<close>.
\<close>

datatype error_payload = ErrorArray "string list" | ErrorOther string

datatype 'a Result = Ok 'a | Err error_payload

definition ok :: "'a \<Rightarrow> 'a Result" where
  "ok v = Ok v"

definition err :: "string list \<Rightarrow> 'a Result" where
  "err errors = Err (ErrorArray errors)"

definition errMessage :: "string \<Rightarrow> 'a Result" where
  "errMessage msg = Err (ErrorArray [msg])"

fun isOk :: "'a Result \<Rightarrow> bool" where
  "isOk (Ok v) = True"
| "isOk (Err e) = False"

fun isErr :: "'a Result \<Rightarrow> bool" where
  "isErr (Ok v) = False"
| "isErr (Err e) = True"

text \<open>
  \<open>map(fn)\<close>: the callback is code of the caller, so it runs on the state and may raise.
  \<open>Ok.map\<close> calls it and wraps what it returns; \<open>Err.map\<close> returns \<open>this\<close>.
\<close>

fun map_result :: "('a \<Rightarrow> ('s, 'b) promise) \<Rightarrow> 'a Result \<Rightarrow> ('s, 'b Result) promise" where
  "map_result fn (Ok v) s =
     (case fn v s of
        (Inl e, s') \<Rightarrow> (Inl e, s')
      | (Inr u, s') \<Rightarrow> (Inr (Ok u), s'))"
| "map_result fn (Err e) s = (Inr (Err e), s)"

fun unwrapOr :: "'a Result \<Rightarrow> 'a \<Rightarrow> 'a" where
  "unwrapOr (Ok v) defaultValue = v"
| "unwrapOr (Err e) defaultValue = defaultValue"

fun getErrors :: "error_payload \<Rightarrow> string list" where
  "getErrors (ErrorArray errors) = errors"
| "getErrors (ErrorOther s) = [s]"

text \<open>\<open>Array.prototype.join(separator)\<close> on an array of strings.\<close>

fun join :: "string \<Rightarrow> string list \<Rightarrow> string" where
  "join sep [] = []"
| "join sep [x] = x"
| "join sep (x # y # ys) = x @ sep @ join sep (y # ys)"

text \<open>
  \<open>unwrap()\<close>: \<open>Ok\<close> returns the value; \<open>Err\<close> throws \<open>new Error(...)\<close> with the joined
  array, or with \<open>String(this.error)\<close> when the payload is not an array.
\<close>

fun unwrap :: "'a Result \<Rightarrow> thrown + 'a" where
  "unwrap (Ok v) = Inr v"
| "unwrap (Err (ErrorArray errors)) = Inl (ErrorInstance (Error (join '', '' errors)))"
| "unwrap (Err (ErrorOther s)) = Inl (ErrorInstance (Error s))"

section \<open>Commands, queries, handlers and behaviors\<close>

text \<open>
  Both buses read \<open>constructor.name\<close> of the value they dispatch. A concrete command
  or query class extends this record with its own fields.
\<close>

record js_object =
  constructor_name :: string

text \<open>
  What \<open>validate()\<close> resolves to, as \<open>ValidationCommandBehavior\<close> reads it:
  \<open>isValid\<close> is the truthiness of the member, \<open>errors\<close> is \<open>None\<close> when the member is
  missing (or falsy), so that \<open>validation.errors || ['Validation failed']\<close> takes the
  fallback.
\<close>

record validation_result =
  isValid :: bool
  errors :: "string list option"

text \<open>
  A command (\<open>ICommand\<close>). \<open>validate\<close> is \<open>Some f\<close> when \<open>'validate' in command\<close> and
  \<open>typeof command.validate === 'function'\<close>, and \<open>None\<close> otherwise; the call resolves
  to \<open>None\<close> when it gives a falsy value (\<open>undefined\<close>, \<open>null\<close>).
\<close>

record 's ICommand = js_object +
  validate :: "('s, validation_result option) promise option"

type_synonym ('c, 'r, 's) ICommandHandler = "'c \<Rightarrow> ('s, 'r Result) promise"

type_synonym ('c, 'r, 's) CommandBehavior =
  "'c \<Rightarrow> ('c \<Rightarrow> ('s, 'r Result) promise) \<Rightarrow> ('s, 'r Result) promise"

type_synonym ('q, 'r, 's) IQueryHandler = "'q \<Rightarrow> ('s, 'r) promise"

type_synonym ('q, 'r, 's) QueryBehavior =
  "'q \<Rightarrow> ('q \<Rightarrow> ('s, 'r) promise) \<Rightarrow> ('s, 'r) promise"

section \<open>The command bus (\<open>command_bus.ts\<close>)\<close>

record ('c, 'r, 's) CommandBus =
  handlers :: "string \<rightharpoonup> ('c, 'r, 's) ICommandHandler"
  behaviors :: "('c, 'r, 's) CommandBehavior list"

text \<open>\<open>new CommandBus()\<close>: an empty registry and no behaviors.\<close>

definition new_CommandBus :: "('c, 'r, 's) CommandBus" where
  "new_CommandBus = \<lparr>handlers = Map.empty, behaviors = []\<rparr>"

definition register :: "string \<Rightarrow> ('c, 'r, 's) ICommandHandler \<Rightarrow>
    ('c, 'r, 's) CommandBus \<Rightarrow> ('c, 'r, 's) CommandBus" where
  "register commandIdentifier handler bus =
     bus\<lparr>handlers := (handlers bus)(commandIdentifier \<mapsto> handler)\<rparr>"

definition use :: "('c, 'r, 's) CommandBehavior \<Rightarrow>
    ('c, 'r, 's) CommandBus \<Rightarrow> ('c, 'r, 's) CommandBus" where
  "use behavior bus = bus\<lparr>behaviors := behaviors bus @ [behavior]\<rparr>"

text \<open>
  The innermost stage of \<open>buildPipeline\<close>: \<open>try { return await handler.handle(cmd) }\<close>,
  and in the \<open>catch\<close> the message of an \<open>Error\<close> instance or the fixed text.
\<close>

definition handler_stage :: "('c, 'r, 's) ICommandHandler \<Rightarrow> 'c \<Rightarrow> ('s, 'r Result) promise" where
  "handler_stage handler cmd s =
     (case handler cmd s of
        (Inr result, s') \<Rightarrow> (Inr result, s')
      | (Inl error, s') \<Rightarrow>
          (Inr (err [case error of
                       ErrorInstance e \<Rightarrow> message e
                     | NonError v \<Rightarrow> ''Command execution failed'']), s'))"

text \<open>
  The loop \<open>for (let i = behaviors.length - 1; i >= 0; i--)\<close>, which replaces
  \<open>pipeline\<close> by \<open>(cmd) => behaviors[i].handle(cmd, next)\<close> with \<open>next\<close> the pipeline
  built so far.
\<close>

function wrap_behaviors :: "('c, 'r, 's) CommandBehavior list \<Rightarrow> int \<Rightarrow>
    ('c \<Rightarrow> ('s, 'r Result) promise) \<Rightarrow> ('c \<Rightarrow> ('s, 'r Result) promise)" where
  "wrap_behaviors bs i pipeline =
     (if i \<ge> 0
      then (let behavior = bs ! nat i; next = pipeline
            in wrap_behaviors bs (i - 1) (\<lambda>cmd. behavior cmd next))
      else pipeline)"
  by pat_completeness auto
termination
  by (relation "measure (\<lambda>(bs, i, pipeline). nat (i + 1))") auto

declare wrap_behaviors.simps [simp del]

text \<open>\<open>buildPipeline(_command, handler)\<close>; its first parameter is not read.\<close>

definition buildPipeline :: "('c, 'r, 's) CommandBus \<Rightarrow> 'c \<Rightarrow> ('c, 'r, 's) ICommandHandler \<Rightarrow>
    ('c \<Rightarrow> ('s, 'r Result) promise)" where
  "buildPipeline bus command0 handler =
     wrap_behaviors (behaviors bus) (int (length (behaviors bus)) - 1) (handler_stage handler)"

definition execute :: "('z js_object_scheme, 'r, 's) CommandBus \<Rightarrow> 'z js_object_scheme \<Rightarrow>
    ('s, 'r Result) promise" where
  "execute bus command =
     (let commandIdentifier = constructor_name command
      in case handlers bus commandIdentifier of
           None \<Rightarrow>
             (\<lambda>s. (Inr (err [''No handler registered for command: '' @ commandIdentifier]), s))
         | Some handler \<Rightarrow>
             (let pipeline = buildPipeline bus command handler in pipeline command))"

section \<open>The query bus (\<open>query_bus.ts\<close>)\<close>

record ('q, 'r, 's) QueryBus =
  handlers :: "string \<rightharpoonup> ('q, 'r, 's) IQueryHandler"
  behaviors :: "('q, 'r, 's) QueryBehavior list"

definition new_QueryBus :: "('q, 'r, 's) QueryBus" where
  "new_QueryBus = \<lparr>QueryBus.handlers = Map.empty, QueryBus.behaviors = []\<rparr>"

definition query_register :: "string \<Rightarrow> ('q, 'r, 's) IQueryHandler \<Rightarrow>
    ('q, 'r, 's) QueryBus \<Rightarrow> ('q, 'r, 's) QueryBus" where
  "query_register queryIdentifier handler bus =
     bus\<lparr>QueryBus.handlers := (QueryBus.handlers bus)(queryIdentifier \<mapsto> handler)\<rparr>"

definition query_use :: "('q, 'r, 's) QueryBehavior \<Rightarrow>
    ('q, 'r, 's) QueryBus \<Rightarrow> ('q, 'r, 's) QueryBus" where
  "query_use behavior bus = bus\<lparr>QueryBus.behaviors := QueryBus.behaviors bus @ [behavior]\<rparr>"

text \<open>The same loop over the query behaviors.\<close>

function query_wrap_behaviors :: "('q, 'r, 's) QueryBehavior list \<Rightarrow> int \<Rightarrow>
    ('q \<Rightarrow> ('s, 'r) promise) \<Rightarrow> ('q \<Rightarrow> ('s, 'r) promise)" where
  "query_wrap_behaviors bs i pipeline =
     (if i \<ge> 0
      then (let behavior = bs ! nat i; next = pipeline
            in query_wrap_behaviors bs (i - 1) (\<lambda>q. behavior q next))
      else pipeline)"
  by pat_completeness auto
termination
  by (relation "measure (\<lambda>(bs, i, pipeline). nat (i + 1))") auto

declare query_wrap_behaviors.simps [simp del]

text \<open>The pipeline starts with \<open>(q) => handler.handle(q)\<close>, with no \<open>try\<close> around it.\<close>

definition query_buildPipeline :: "('q, 'r, 's) QueryBus \<Rightarrow> 'q \<Rightarrow> ('q, 'r, 's) IQueryHandler \<Rightarrow>
    ('q \<Rightarrow> ('s, 'r) promise)" where
  "query_buildPipeline bus query0 handler =
     query_wrap_behaviors (QueryBus.behaviors bus)
       (int (length (QueryBus.behaviors bus)) - 1) (\<lambda>q. handler q)"

definition query_execute :: "('z js_object_scheme, 'r, 's) QueryBus \<Rightarrow> 'z js_object_scheme \<Rightarrow>
    ('s, 'r) promise" where
  "query_execute bus query =
     (let queryIdentifier = constructor_name query
      in case QueryBus.handlers bus queryIdentifier of
           None \<Rightarrow>
             (\<lambda>s. (Inl (ErrorInstance (HandlerNotFoundError ''query'' queryIdentifier)), s))
         | Some handler \<Rightarrow>
             (let pipeline = query_buildPipeline bus query handler in pipeline query))"

section \<open>The validation behavior (\<open>behaviors.ts\<close>)\<close>

text \<open>
  \<open>ValidationCommandBehavior.handle\<close>: a command with a \<open>validate\<close> function is
  validated first; a truthy validation whose \<open>isValid\<close> is falsy ends the call with
  \<open>err(validation.errors || ['Validation failed'])\<close>; in every other case the behavior
  returns \<open>next(command)\<close>. A fault raised by \<open>validate()\<close> itself is not caught here.
\<close>

definition ValidationCommandBehavior ::
    "(('s, 'z) ICommand_scheme, 'r, 's) CommandBehavior" where
  "ValidationCommandBehavior command next s =
     (case validate command of
        Some validate_fn \<Rightarrow>
          (case validate_fn s of
             (Inl e, s') \<Rightarrow> (Inl e, s')
           | (Inr validation, s') \<Rightarrow>
               (case validation of
                  Some v \<Rightarrow>
                    if \<not> isValid v
                    then (Inr (err (case errors v of
                                      Some es \<Rightarrow> es
                                    | None \<Rightarrow> [''Validation failed''])), s')
                    else next command s'
                | None \<Rightarrow> next command s'))
      | None \<Rightarrow> next command s)"

section \<open>Properties of pipeline stages\<close>

text \<open>
  A stage never raises when it resolves on every input and in every state. A behavior
  raises only with \<open>next\<close> when, around a \<open>next\<close> that never raises, it never raises
  either.
\<close>

definition never_raises :: "('c \<Rightarrow> ('s, 'a) promise) \<Rightarrow> bool" where
  "never_raises stage \<longleftrightarrow> (\<forall>c s. \<not> isl (fst (stage c s)))"

definition raises_only_with_next ::
    "('c \<Rightarrow> ('c \<Rightarrow> ('s, 'a) promise) \<Rightarrow> ('s, 'a) promise) \<Rightarrow> bool" where
  "raises_only_with_next behavior \<longleftrightarrow>
     (\<forall>next. never_raises next \<longrightarrow> never_raises (\<lambda>c. behavior c next))"

text \<open>
  A behavior forwards \<open>next\<close> when it calls \<open>next\<close> on the value it was given, in the
  state \<open>pre\<close> makes of its own, and its outcome is the outcome of that call: it
  returns what \<open>next\<close> returns and raises what \<open>next\<close> raises (it has no \<open>catch\<close>, or
  re-raises in it).
\<close>

definition forwards_next ::
    "('c \<Rightarrow> ('c \<Rightarrow> ('s, 'a) promise) \<Rightarrow> ('s, 'a) promise) \<Rightarrow> ('c \<Rightarrow> 's \<Rightarrow> 's) \<Rightarrow> bool" where
  "forwards_next behavior pre \<longleftrightarrow>
     (\<forall>next c s. fst (behavior c next s) = fst (next c (pre c s)))"

section \<open>Fixtures of the unit tests\<close>

text \<open>
  \<open>tests/unit/behaviors.spec.ts\<close>: \<open>TestCommand\<close> carries a number and validates
  that it is not negative; \<open>TestCommandHandler\<close> doubles it, \<open>TestQueryHandler\<close>
  triples it. \<open>tests/unit/command.spec.ts\<close> and \<open>query.spec.ts\<close>: a handler that
  throws \<open>new Error(...)\<close>. The shared state of the fixtures is a list of strings, the
  order-recording list that the handlers and behaviors below push to. The number a
  fixture carries is an \<open>int\<close>; the fixtures are run on \<open>5\<close> and \<open>-5\<close> only, where
  JavaScript's arithmetic is exact.
\<close>

record 's TestCommand = "'s ICommand" +
  val :: int

definition TestCommand_validate :: "int \<Rightarrow> ('s, validation_result option) promise" where
  "TestCommand_validate v s =
     (if v < 0
      then (Inr (Some \<lparr>isValid = False, errors = Some [''Value must be positive'']\<rparr>), s)
      else (Inr (Some \<lparr>isValid = True, errors = None\<rparr>), s))"

definition new_TestCommand :: "int \<Rightarrow> 's TestCommand" where
  "new_TestCommand v =
     \<lparr>constructor_name = ''TestCommand'', validate = Some (TestCommand_validate v), val = v\<rparr>"

definition TestCommandHandler :: "(string list TestCommand, int, string list) ICommandHandler" where
  "TestCommandHandler command s = (Inr (ok (val command * 2)), s @ [''H''])"

definition ThrowingHandler :: "(string list TestCommand, int, string list) ICommandHandler" where
  "ThrowingHandler command s = (Inl (ErrorInstance (Error ''Unexpected error'')), s @ [''H''])"

text \<open>A handler that throws a string, \<open>throw 'boom'\<close>, which is not an \<open>Error\<close>.\<close>

definition StringThrowingHandler :: "(string list TestCommand, int, string list) ICommandHandler" where
  "StringThrowingHandler command s = (Inl (NonError ''boom''), s @ [''H''])"

record TestQuery = js_object +
  qval :: int

definition new_TestQuery :: "int \<Rightarrow> TestQuery" where
  "new_TestQuery v = \<lparr>constructor_name = ''TestQuery'', qval = v\<rparr>"

definition TestQueryHandler :: "(TestQuery, int, string list) IQueryHandler" where
  "TestQueryHandler query s = (Inr (qval query * 3), s @ [''H''])"

definition ThrowingQueryHandler :: "(TestQuery, int, string list) IQueryHandler" where
  "ThrowingQueryHandler query s = (Inl (ErrorInstance (Error ''boom'')), s @ [''H''])"

text \<open>
  A behavior that records its label before it awaits \<open>next\<close> and again after \<open>next\<close>
  has resolved; it has no \<open>try\<close>, so a fault of \<open>next\<close> passes through it. It fits both
  buses.
\<close>

definition RecordingBehavior :: "string \<Rightarrow> 'c \<Rightarrow> ('c \<Rightarrow> (string list, 'a) promise) \<Rightarrow>
    (string list, 'a) promise" where
  "RecordingBehavior label command next s =
     (case next command (s @ [label @ '' in'']) of
        (Inl e, s') \<Rightarrow> (Inl e, s')
      | (Inr result, s') \<Rightarrow> (Inr result, s' @ [label @ '' out'']))"

text \<open>A behavior that throws before it calls \<open>next\<close>.\<close>

definition ThrowingBehavior :: "'c \<Rightarrow> ('c \<Rightarrow> (string list, 'a) promise) \<Rightarrow>
    (string list, 'a) promise" where
  "ThrowingBehavior command next s = (Inl (ErrorInstance (Error ''behavior failed'')), s)"

text \<open>
  A query behavior with a \<open>try\<close> around \<open>next\<close> whose \<open>catch\<close> returns \<open>0\<close>.
\<close>

definition CatchingQueryBehavior :: "'q \<Rightarrow> ('q \<Rightarrow> (string list, int) promise) \<Rightarrow>
    (string list, int) promise" where
  "CatchingQueryBehavior query next s =
     (case next query s of
        (Inl e, s') \<Rightarrow> (Inr 0, s')
      | (Inr result, s') \<Rightarrow> (Inr result, s'))"

text \<open>A \<open>TestCommand\<close> whose \<open>validate()\<close> throws instead of reporting.\<close>

definition throwing_validate :: "('s, validation_result option) promise" where
  "throwing_validate s = (Inl (ErrorInstance (Error ''validate crashed'')), s)"

definition new_CrashingCommand :: "int \<Rightarrow> 's TestCommand" where
  "new_CrashingCommand v =
     \<lparr>constructor_name = ''TestCommand'', validate = Some throwing_validate, val = v\<rparr>"

section \<open>The pipeline is a fold over the behaviors\<close>

text \<open>
  Started at index \<open>n - 1\<close>, the loop wraps the first \<open>n\<close> behaviors around the
  starting stage, the one at index \<open>0\<close> last. Started at \<open>length - 1\<close> it is the right
  fold over the whole list, so the first behavior of the list is the outermost one.
\<close>

lemma wrap_behaviors_take:
  "n \<le> length bs \<Longrightarrow>
   wrap_behaviors bs (int n - 1) p = foldr (\<lambda>b next cmd. b cmd next) (take n bs) p"
proof (induction n arbitrary: p)
  case 0
  show ?case by (subst wrap_behaviors.simps) simp
next
  case (Suc n)
  then have n: "n < length bs" by simp
  have "wrap_behaviors bs (int (Suc n) - 1) p
      = wrap_behaviors bs (int n - 1) (\<lambda>cmd. (bs ! n) cmd p)"
    by (subst wrap_behaviors.simps) (simp add: Let_def)
  also have "\<dots> = foldr (\<lambda>b next cmd. b cmd next) (take n bs) (\<lambda>cmd. (bs ! n) cmd p)"
    using Suc.IH n by simp
  also have "\<dots> = foldr (\<lambda>b next cmd. b cmd next) (take (Suc n) bs) p"
    using n by (simp add: take_Suc_conv_app_nth)
  finally show ?case .
qed

lemma buildPipeline_foldr:
  "buildPipeline bus c h =
   foldr (\<lambda>b next cmd. b cmd next) (CommandBus.behaviors bus) (handler_stage h)"
  unfolding buildPipeline_def
  using wrap_behaviors_take [of "length (CommandBus.behaviors bus)" "CommandBus.behaviors bus"]
  by simp

lemma query_wrap_behaviors_take:
  "n \<le> length bs \<Longrightarrow>
   query_wrap_behaviors bs (int n - 1) p = foldr (\<lambda>b next q. b q next) (take n bs) p"
proof (induction n arbitrary: p)
  case 0
  show ?case by (subst query_wrap_behaviors.simps) simp
next
  case (Suc n)
  then have n: "n < length bs" by simp
  have "query_wrap_behaviors bs (int (Suc n) - 1) p
      = query_wrap_behaviors bs (int n - 1) (\<lambda>q. (bs ! n) q p)"
    by (subst query_wrap_behaviors.simps) (simp add: Let_def)
  also have "\<dots> = foldr (\<lambda>b next q. b q next) (take n bs) (\<lambda>q. (bs ! n) q p)"
    using Suc.IH n by simp
  also have "\<dots> = foldr (\<lambda>b next q. b q next) (take (Suc n) bs) p"
    using n by (simp add: take_Suc_conv_app_nth)
  finally show ?case .
qed

lemma query_buildPipeline_foldr:
  "query_buildPipeline bus q h =
   foldr (\<lambda>b next q. b q next) (QueryBus.behaviors bus) h"
  unfolding query_buildPipeline_def
  using query_wrap_behaviors_take [of "length (QueryBus.behaviors bus)" "QueryBus.behaviors bus"]
  by simp

lemma execute_registered:
  "CommandBus.handlers bus (constructor_name c) = Some H \<Longrightarrow>
   execute bus c = foldr (\<lambda>b next cmd. b cmd next) (CommandBus.behaviors bus) (handler_stage H) c"
  by (simp add: execute_def buildPipeline_foldr)

lemma query_execute_registered:
  "QueryBus.handlers bus (constructor_name q) = Some H \<Longrightarrow>
   query_execute bus q = foldr (\<lambda>b next q. b q next) (QueryBus.behaviors bus) H q"
  by (simp add: query_execute_def query_buildPipeline_foldr)

lemma handler_stage_never_raises: "never_raises (handler_stage H)"
  unfolding never_raises_def handler_stage_def
  by (auto split: prod.splits sum.splits)

lemma foldr_never_raises:
  "\<forall>b\<in>set bs. raises_only_with_next b \<Longrightarrow> never_raises p \<Longrightarrow>
   never_raises (foldr (\<lambda>b next cmd. b cmd next) bs p)"
  by (induction bs) (auto simp: raises_only_with_next_def)

lemma foldr_forwards_next:
  "list_all2 forwards_next bs pres \<Longrightarrow>
   fst (foldr (\<lambda>b next q. b q next) bs p q s) = fst (p q (fold (\<lambda>pre. pre q) pres s))"
proof (induction bs pres arbitrary: s rule: list_all2_induct)
  case Nil
  show ?case by simp
next
  case (Cons b bs pre pres)
  have "fst (foldr (\<lambda>b next q. b q next) (b # bs) p q s)
      = fst (b q (foldr (\<lambda>b next q. b q next) bs p) s)"
    by simp
  also have "\<dots> = fst (foldr (\<lambda>b next q. b q next) bs p q (pre q s))"
    using Cons.hyps(1) by (simp add: forwards_next_def)
  also have "\<dots> = fst (p q (fold (\<lambda>pre. pre q) pres (pre q s)))"
    by (rule Cons.IH)
  finally show ?case by simp
qed

lemma RecordingBehavior_raises_only_with_next: "raises_only_with_next (RecordingBehavior label)"
  unfolding raises_only_with_next_def never_raises_def RecordingBehavior_def
  by (auto split: prod.splits sum.splits) (metis fst_conv sum.disc(1))

lemma RecordingBehavior_forwards_next:
  "forwards_next (RecordingBehavior label) (\<lambda>c s. s @ [label @ '' in''])"
  unfolding forwards_next_def RecordingBehavior_def
  by (auto split: prod.splits sum.splits)

section \<open>Claims\<close>

text \<open>
  C1 (as amended). On the command path, for a command whose identifier has a registered
  handler, the pipeline that \<open>execute\<close> runs is the behaviors folded around the guarded
  handler stage. A fault raised by the handler is caught in that innermost stage and
  becomes \<open>Err([message])\<close>, the one-element list of the message of the \<open>Error\<close>
  instance; the stage itself never raises, and on a bus without behaviors that \<open>Err\<close> is
  what \<open>execute\<close> returns. The \<open>try\<close> encloses the handler only: \<open>execute\<close> raises no
  fault as long as no behavior raises one of its own (every behavior raises only when
  its \<open>next\<close> does).
\<close>

theorem handler_fault_becomes_Err:
  assumes "CommandBus.handlers bus (constructor_name command) = Some H"
  shows "execute bus command =
           foldr (\<lambda>b next cmd. b cmd next) (CommandBus.behaviors bus) (handler_stage H) command
       \<and> (H cmd s = (Inl (ErrorInstance e), s') \<longrightarrow>
            handler_stage H cmd s = (Inr (Err (ErrorArray [message e])), s'))
       \<and> \<not> isl (fst (handler_stage H cmd s))
       \<and> (CommandBus.behaviors bus = [] \<and> H command s = (Inl (ErrorInstance e), s') \<longrightarrow>
            execute bus command s = (Inr (Err (ErrorArray [message e])), s'))
       \<and> ((\<forall>b\<in>set (CommandBus.behaviors bus). raises_only_with_next b) \<longrightarrow>
            \<not> isl (fst (execute bus command s)))"
proof -
  have stage: "execute bus command =
      foldr (\<lambda>b next cmd. b cmd next) (CommandBus.behaviors bus) (handler_stage H) command"
    using assms by (rule execute_registered)
  have caught: "H cmd s = (Inl (ErrorInstance e), s') \<longrightarrow>
      handler_stage H cmd s = (Inr (Err (ErrorArray [message e])), s')"
    by (simp add: handler_stage_def err_def)
  have inner: "\<not> isl (fst (handler_stage H cmd s))"
    using handler_stage_never_raises [of H] by (simp add: never_raises_def)
  have bare: "CommandBus.behaviors bus = [] \<and> H command s = (Inl (ErrorInstance e), s') \<longrightarrow>
      execute bus command s = (Inr (Err (ErrorArray [message e])), s')"
    by (simp add: stage handler_stage_def err_def)
  have outer: "(\<forall>b\<in>set (CommandBus.behaviors bus). raises_only_with_next b) \<longrightarrow>
      \<not> isl (fst (execute bus command s))"
  proof
    assume "\<forall>b\<in>set (CommandBus.behaviors bus). raises_only_with_next b"
    then have "never_raises
        (foldr (\<lambda>b next cmd. b cmd next) (CommandBus.behaviors bus) (handler_stage H))"
      using handler_stage_never_raises by (rule foldr_never_raises)
    then show "\<not> isl (fst (execute bus command s))"
      unfolding stage by (simp add: never_raises_def)
  qed
  from stage caught inner bare outer show ?thesis by blast
qed

text \<open>
  The amended C1 on the handler of the unit test that throws
  \<open>new Error('Unexpected error')\<close>: on a bus without behaviors, as in
  \<open>command.spec.ts\<close>, and inside one recording behavior.
\<close>

theorem handler_fault_becomes_Err_witness:
  "CommandBus.handlers (register ''TestCommand'' ThrowingHandler new_CommandBus)
     (constructor_name (new_TestCommand 5 :: string list TestCommand)) = Some ThrowingHandler
   \<and> handler_stage ThrowingHandler (new_TestCommand 5) []
       = (Inr (Err (ErrorArray [''Unexpected error''])), [''H''])
   \<and> execute (register ''TestCommand'' ThrowingHandler new_CommandBus) (new_TestCommand 5) []
       = (Inr (Err (ErrorArray [''Unexpected error''])), [''H''])
   \<and> \<not> isl (fst (execute
        (use (RecordingBehavior ''A'') (register ''TestCommand'' ThrowingHandler new_CommandBus))
        (new_TestCommand 5) []))
   \<and> execute
        (use (RecordingBehavior ''A'') (register ''TestCommand'' ThrowingHandler new_CommandBus))
        (new_TestCommand 5) []
       = (Inr (Err (ErrorArray [''Unexpected error''])), [''A in'', ''H'', ''A out''])"
proof -
  let ?plain = "register ''TestCommand'' ThrowingHandler new_CommandBus"
  let ?bus = "use (RecordingBehavior ''A'') ?plain"
  let ?c = "new_TestCommand 5 :: string list TestCommand"
  have hp: "CommandBus.handlers ?plain (constructor_name ?c) = Some ThrowingHandler"
    by (simp add: register_def new_CommandBus_def new_TestCommand_def)
  have bp: "CommandBus.behaviors ?plain = []"
    by (simp add: register_def new_CommandBus_def)
  have h: "CommandBus.handlers ?bus (constructor_name ?c) = Some ThrowingHandler"
    by (simp add: use_def register_def new_CommandBus_def new_TestCommand_def)
  have bs: "\<forall>b\<in>set (CommandBus.behaviors ?bus). raises_only_with_next b"
    by (simp add: use_def register_def new_CommandBus_def RecordingBehavior_raises_only_with_next)
  have bl: "CommandBus.behaviors ?bus = [RecordingBehavior ''A'']"
    by (simp add: use_def register_def new_CommandBus_def)
  have t: "ThrowingHandler ?c [] = (Inl (ErrorInstance (Error ''Unexpected error'')), [''H''])"
    by (simp add: ThrowingHandler_def)
  note plain = handler_fault_becomes_Err [OF hp, where cmd = ?c and s = "[]"
      and e = "Error ''Unexpected error''" and s' = "[''H'']"]
  note wrapped = handler_fault_becomes_Err [OF h, where cmd = ?c and s = "[]"
      and e = "Error ''Unexpected error''" and s' = "[''H'']"]
  from plain t have a: "handler_stage ThrowingHandler ?c [] =
      (Inr (Err (ErrorArray [message (Error ''Unexpected error'')])), [''H''])"
    by blast
  from plain bp t have b: "execute ?plain ?c [] =
      (Inr (Err (ErrorArray [message (Error ''Unexpected error'')])), [''H''])"
    by blast
  from wrapped bs have c: "\<not> isl (fst (execute ?bus ?c []))"
    by blast
  from wrapped have "execute ?bus ?c =
      foldr (\<lambda>b next cmd. b cmd next) (CommandBus.behaviors ?bus) (handler_stage ThrowingHandler) ?c"
    by blast
  then have d: "execute ?bus ?c [] =
      (Inr (Err (ErrorArray [''Unexpected error''])), [''A in'', ''H'', ''A out''])"
    by (simp add: bl RecordingBehavior_def handler_stage_def ThrowingHandler_def err_def Error_def)
  from hp a b c d show ?thesis by (simp add: Error_def)
qed

text \<open>
  C1 as stated fails: a behavior that throws sits outside the \<open>try\<close> of the innermost
  stage, and \<open>execute\<close> rejects with its fault although a handler is registered.
\<close>

theorem behavior_fault_counterexample:
  "CommandBus.handlers
     (use ThrowingBehavior (register ''TestCommand'' TestCommandHandler new_CommandBus))
     (constructor_name (new_TestCommand 5 :: string list TestCommand)) = Some TestCommandHandler
   \<and> execute (use ThrowingBehavior (register ''TestCommand'' TestCommandHandler new_CommandBus))
        (new_TestCommand 5) []
      = (Inl (ErrorInstance (Error ''behavior failed'')), [])"
proof -
  let ?bus = "use ThrowingBehavior (register ''TestCommand'' TestCommandHandler new_CommandBus)"
  let ?c = "new_TestCommand 5 :: string list TestCommand"
  have h: "CommandBus.handlers ?bus (constructor_name ?c) = Some TestCommandHandler"
    by (simp add: use_def register_def new_CommandBus_def new_TestCommand_def)
  have b: "CommandBus.behaviors ?bus = [ThrowingBehavior]"
    by (simp add: use_def register_def new_CommandBus_def)
  show ?thesis
    using h by (simp add: execute_registered [OF h] b ThrowingBehavior_def)
qed

text \<open>
  C2. On both buses \<open>use\<close> appends, and \<open>buildPipeline\<close> is the right fold of the
  behaviors over the innermost stage, built from the last-registered behavior to the
  first. With behaviors \<open>[A, B]\<close> and a registered handler \<open>H\<close>, \<open>execute\<close> is the call
  of \<open>A\<close> whose \<open>next\<close> is the call of \<open>B\<close> whose \<open>next\<close> is the handler (on the
  command bus, the guarded handler stage): \<open>A\<close> is entered first, \<open>B\<close> second, \<open>H\<close>
  innermost, and what \<open>H\<close> returns comes back to \<open>B\<close> and then to \<open>A\<close>.
\<close>

theorem behaviors_run_in_registration_order:
  "CommandBus.behaviors (use B (use A cbus)) = CommandBus.behaviors cbus @ [A, B]
 \<and> QueryBus.behaviors (query_use QB (query_use QA qbus)) = QueryBus.behaviors qbus @ [QA, QB]
 \<and> buildPipeline cbus command H =
       foldr (\<lambda>b next cmd. b cmd next) (CommandBus.behaviors cbus) (handler_stage H)
 \<and> query_buildPipeline qbus query QH =
       foldr (\<lambda>b next q. b q next) (QueryBus.behaviors qbus) QH
 \<and> (CommandBus.behaviors cbus = [A, B] \<and>
      CommandBus.handlers cbus (constructor_name command) = Some H \<longrightarrow>
      execute cbus command = A command (\<lambda>cmd. B cmd (handler_stage H)))
 \<and> (QueryBus.behaviors qbus = [QA, QB] \<and>
      QueryBus.handlers qbus (constructor_name query) = Some QH \<longrightarrow>
      query_execute qbus query = QA query (\<lambda>q. QB q QH))"
proof -
  have c: "CommandBus.behaviors cbus = [A, B] \<and>
      CommandBus.handlers cbus (constructor_name command) = Some H \<longrightarrow>
      execute cbus command = A command (\<lambda>cmd. B cmd (handler_stage H))"
    by (simp add: execute_registered)
  have q: "QueryBus.behaviors qbus = [QA, QB] \<and>
      QueryBus.handlers qbus (constructor_name query) = Some QH \<longrightarrow>
      query_execute qbus query = QA query (\<lambda>q. QB q QH)"
    by (simp add: query_execute_registered)
  show ?thesis
    using c q by (simp add: use_def query_use_def buildPipeline_foldr query_buildPipeline_foldr)
qed

text \<open>
  C2 on the order-recording list: two recording behaviors \<open>A\<close>, \<open>B\<close> and a handler
  that records \<open>H\<close>, on each bus.
\<close>

theorem behaviors_run_in_registration_order_witness:
  "execute (use (RecordingBehavior ''B'') (use (RecordingBehavior ''A'')
       (register ''TestCommand'' TestCommandHandler new_CommandBus))) (new_TestCommand 5) []
     = (Inr (Ok 10), [''A in'', ''B in'', ''H'', ''B out'', ''A out''])
 \<and> query_execute (query_use (RecordingBehavior ''B'') (query_use (RecordingBehavior ''A'')
       (query_register ''TestQuery'' TestQueryHandler new_QueryBus))) (new_TestQuery 5) []
     = (Inr 15, [''A in'', ''B in'', ''H'', ''B out'', ''A out''])"
proof -
  let ?cbus = "use (RecordingBehavior ''B'') (use (RecordingBehavior ''A'')
       (register ''TestCommand'' TestCommandHandler new_CommandBus))"
  let ?qbus = "query_use (RecordingBehavior ''B'') (query_use (RecordingBehavior ''A'')
       (query_register ''TestQuery'' TestQueryHandler new_QueryBus))"
  let ?c = "new_TestCommand 5 :: string list TestCommand"
  let ?q = "new_TestQuery 5"
  have cb: "CommandBus.behaviors ?cbus = [RecordingBehavior ''A'', RecordingBehavior ''B'']"
    by (simp add: use_def register_def new_CommandBus_def)
  have ch: "CommandBus.handlers ?cbus (constructor_name ?c) = Some TestCommandHandler"
    by (simp add: use_def register_def new_CommandBus_def new_TestCommand_def)
  have qb: "QueryBus.behaviors ?qbus = [RecordingBehavior ''A'', RecordingBehavior ''B'']"
    by (simp add: query_use_def query_register_def new_QueryBus_def)
  have qh: "QueryBus.handlers ?qbus (constructor_name ?q) = Some TestQueryHandler"
    by (simp add: query_use_def query_register_def new_QueryBus_def new_TestQuery_def)
  note inst = behaviors_run_in_registration_order
    [where cbus = ?cbus and command = ?c and H = TestCommandHandler
       and A = "RecordingBehavior ''A''" and B = "RecordingBehavior ''B''"
       and qbus = ?qbus and query = ?q and QH = TestQueryHandler
       and QA = "RecordingBehavior ''A''" and QB = "RecordingBehavior ''B''"]
  from inst cb ch have c: "execute ?cbus ?c =
      RecordingBehavior ''A'' ?c (\<lambda>cmd. RecordingBehavior ''B'' cmd (handler_stage TestCommandHandler))"
    by blast
  from inst qb qh have q: "query_execute ?qbus ?q =
      RecordingBehavior ''A'' ?q (\<lambda>q. RecordingBehavior ''B'' q TestQueryHandler)"
    by blast
  show ?thesis
    unfolding c q
    by (simp add: RecordingBehavior_def handler_stage_def TestCommandHandler_def
        TestQueryHandler_def new_TestCommand_def new_TestQuery_def ok_def)
qed

text \<open>
  C3. For a command whose identifier has no registered handler,
  \<open>CommandBus.execute\<close> resolves with \<open>Err(["No handler registered for command: <identifier>"])\<close>;
  it does not raise, and the state is untouched.
\<close>

theorem unregistered_command_is_Err:
  assumes "CommandBus.handlers bus (constructor_name command) = None"
  shows "execute bus command s =
    (Inr (err [''No handler registered for command: '' @ constructor_name command]), s)"
  using assms by (simp add: execute_def)

text \<open>
  C3 on a new bus and a \<open>TestCommand\<close>.
\<close>

theorem unregistered_command_is_Err_witness:
  "CommandBus.handlers (new_CommandBus :: (string list TestCommand, int, string list) CommandBus)
     (constructor_name (new_TestCommand 5 :: string list TestCommand)) = None
 \<and> execute (new_CommandBus :: (string list TestCommand, int, string list) CommandBus)
     (new_TestCommand 5) []
   = (Inr (Err (ErrorArray [''No handler registered for command: TestCommand''])), [])"
proof -
  let ?bus = "new_CommandBus :: (string list TestCommand, int, string list) CommandBus"
  let ?c = "new_TestCommand 5 :: string list TestCommand"
  have h: "CommandBus.handlers ?bus (constructor_name ?c) = None"
    by (simp add: new_CommandBus_def)
  from unregistered_command_is_Err [OF h, of "[]"] h show ?thesis
    by (simp add: new_TestCommand_def err_def)
qed

text \<open>
  C4. For a query whose identifier has no registered handler, \<open>QueryBus.execute\<close>
  rejects with a \<open>HandlerNotFoundError\<close> whose message is
  \<open>No handler registered for query: <identifier>\<close>: a raised fault, not a value.
\<close>

theorem unregistered_query_raises:
  assumes "QueryBus.handlers bus (constructor_name query) = None"
  shows "query_execute bus query s =
    (Inl (ErrorInstance \<lparr>name = ''HandlerNotFoundError'',
        message = ''No handler registered for query: '' @ constructor_name query\<rparr>), s)"
  using assms by (simp add: query_execute_def HandlerNotFoundError_def CQRError_def Error_def)

text \<open>
  C4 on a new bus and a \<open>TestQuery\<close>.
\<close>

theorem unregistered_query_raises_witness:
  "QueryBus.handlers (new_QueryBus :: (TestQuery, int, string list) QueryBus)
     (constructor_name (new_TestQuery 5)) = None
 \<and> query_execute (new_QueryBus :: (TestQuery, int, string list) QueryBus) (new_TestQuery 5) []
   = (Inl (ErrorInstance \<lparr>name = ''HandlerNotFoundError'',
        message = ''No handler registered for query: TestQuery''\<rparr>), [])"
proof -
  let ?bus = "new_QueryBus :: (TestQuery, int, string list) QueryBus"
  have h: "QueryBus.handlers ?bus (constructor_name (new_TestQuery 5)) = None"
    by (simp add: new_QueryBus_def)
  from unregistered_query_raises [OF h, of "[]"] h show ?thesis
    by (simp add: new_TestQuery_def)
qed

text \<open>
  C5 (as amended). On the query path the pipeline is the behaviors folded around the
  bare handler: the bus adds no stage that turns a fault into a value. With no
  behaviors, a fault of the registered handler is the outcome of \<open>execute\<close>, in the state
  the handler left. With behaviors that each forward \<open>next\<close>, the handler runs on the
  dispatched query in the state the behaviors have made, and the fault it raises there
  is the fault \<open>execute\<close> raises. A behavior that catches is not overruled by the bus.
\<close>

theorem query_fault_propagates:
  assumes "QueryBus.handlers bus (constructor_name query) = Some H"
  shows "query_execute bus query = foldr (\<lambda>b next q. b q next) (QueryBus.behaviors bus) H query
       \<and> (QueryBus.behaviors bus = [] \<and> H query s = (Inl e, s') \<longrightarrow>
            query_execute bus query s = (Inl e, s'))
       \<and> (list_all2 forwards_next (QueryBus.behaviors bus) pres \<and>
            H query (fold (\<lambda>pre. pre query) pres s) = (Inl e, s') \<longrightarrow>
            fst (query_execute bus query s) = Inl e)"
proof -
  have pipe: "query_execute bus query =
      foldr (\<lambda>b next q. b q next) (QueryBus.behaviors bus) H query"
    using assms by (rule query_execute_registered)
  have bare: "QueryBus.behaviors bus = [] \<and> H query s = (Inl e, s') \<longrightarrow>
      query_execute bus query s = (Inl e, s')"
    by (simp add: pipe)
  have wrapped: "list_all2 forwards_next (QueryBus.behaviors bus) pres \<and>
      H query (fold (\<lambda>pre. pre query) pres s) = (Inl e, s') \<longrightarrow>
      fst (query_execute bus query s) = Inl e"
  proof
    assume a: "list_all2 forwards_next (QueryBus.behaviors bus) pres \<and>
      H query (fold (\<lambda>pre. pre query) pres s) = (Inl e, s')"
    then have "fst (foldr (\<lambda>b next q. b q next) (QueryBus.behaviors bus) H query s)
        = fst (H query (fold (\<lambda>pre. pre query) pres s))"
      using foldr_forwards_next [of "QueryBus.behaviors bus" pres H query s] by blast
    with a show "fst (query_execute bus query s) = Inl e"
      unfolding pipe by simp
  qed
  from pipe bare wrapped show ?thesis by blast
qed

text \<open>
  The amended C5 on the handler that throws \<open>new Error('boom')\<close>, without behaviors
  and inside two recording behaviors.
\<close>

theorem query_fault_propagates_witness:
  "query_execute (query_register ''TestQuery'' ThrowingQueryHandler new_QueryBus)
     (new_TestQuery 5) [] = (Inl (ErrorInstance \<lparr>name = ''Error'', message = ''boom''\<rparr>), [''H''])
 \<and> fst (query_execute (query_use (RecordingBehavior ''B'') (query_use (RecordingBehavior ''A'')
       (query_register ''TestQuery'' ThrowingQueryHandler new_QueryBus))) (new_TestQuery 5) [])
     = Inl (ErrorInstance \<lparr>name = ''Error'', message = ''boom''\<rparr>)"
proof -
  let ?plain = "query_register ''TestQuery'' ThrowingQueryHandler new_QueryBus"
  let ?bus = "query_use (RecordingBehavior ''B'') (query_use (RecordingBehavior ''A'') ?plain)"
  let ?q = "new_TestQuery 5"
  let ?e = "ErrorInstance (Error ''boom'')"
  let ?pres = "[\<lambda>(c :: TestQuery) s. s @ [''A'' @ '' in''], \<lambda>c s. s @ [''B'' @ '' in'']]"
  have h0: "QueryBus.handlers ?plain (constructor_name ?q) = Some ThrowingQueryHandler"
    by (simp add: query_register_def new_QueryBus_def new_TestQuery_def)
  have b0: "QueryBus.behaviors ?plain = []"
    by (simp add: query_register_def new_QueryBus_def)
  have t: "ThrowingQueryHandler ?q [] = (Inl ?e, [''H''])"
    by (simp add: ThrowingQueryHandler_def)
  have h: "QueryBus.handlers ?bus (constructor_name ?q) = Some ThrowingQueryHandler"
    by (simp add: query_use_def query_register_def new_QueryBus_def new_TestQuery_def)
  have bs: "list_all2 forwards_next (QueryBus.behaviors ?bus) ?pres"
    using RecordingBehavior_forwards_next [of "''A''"] RecordingBehavior_forwards_next [of "''B''"]
    by (simp add: query_use_def query_register_def new_QueryBus_def)
  have t2: "ThrowingQueryHandler ?q (fold (\<lambda>pre. pre ?q) ?pres [])
      = (Inl ?e, [''A in'', ''B in'', ''H''])"
    by (simp add: ThrowingQueryHandler_def)
  from query_fault_propagates [OF h0, where s = "[]" and e = ?e and s' = "[''H'']"] b0 t
  have one: "query_execute ?plain ?q [] = (Inl ?e, [''H''])"
    by blast
  from query_fault_propagates [OF h, where s = "[]" and e = ?e and pres = ?pres
      and s' = "[''A in'', ''B in'', ''H'']"] bs t2
  have two: "fst (query_execute ?bus ?q []) = Inl ?e"
    by blast
  from one two show ?thesis by (simp add: Error_def)
qed

text \<open>
  C5 as stated fails: the handler is registered and raises, a behavior catches the
  fault and returns \<open>0\<close>, and \<open>execute\<close> resolves with \<open>0\<close>.
\<close>

theorem catching_behavior_counterexample:
  "QueryBus.handlers (query_use CatchingQueryBehavior
       (query_register ''TestQuery'' ThrowingQueryHandler new_QueryBus))
     (constructor_name (new_TestQuery 5)) = Some ThrowingQueryHandler
 \<and> ThrowingQueryHandler (new_TestQuery 5) []
     = (Inl (ErrorInstance \<lparr>name = ''Error'', message = ''boom''\<rparr>), [''H''])
 \<and> query_execute (query_use CatchingQueryBehavior
       (query_register ''TestQuery'' ThrowingQueryHandler new_QueryBus)) (new_TestQuery 5) []
     = (Inr 0, [''H''])"
proof -
  let ?bus = "query_use CatchingQueryBehavior
      (query_register ''TestQuery'' ThrowingQueryHandler new_QueryBus)"
  let ?q = "new_TestQuery 5"
  have h: "QueryBus.handlers ?bus (constructor_name ?q) = Some ThrowingQueryHandler"
    by (simp add: query_use_def query_register_def new_QueryBus_def new_TestQuery_def)
  have b: "QueryBus.behaviors ?bus = [CatchingQueryBehavior]"
    by (simp add: query_use_def query_register_def new_QueryBus_def)
  have t: "ThrowingQueryHandler ?q [] =
      (Inl (ErrorInstance \<lparr>name = ''Error'', message = ''boom''\<rparr>), [''H''])"
    by (simp add: ThrowingQueryHandler_def Error_def)
  have r: "query_execute ?bus ?q [] = (Inr 0, [''H''])"
    by (simp add: query_execute_registered [OF h] b CatchingQueryBehavior_def
        ThrowingQueryHandler_def)
  from h t r show ?thesis by simp
qed

text \<open>
  C6 (as amended). \<open>unwrap()\<close> on \<open>Ok(v)\<close> returns \<open>v\<close>; on every \<open>Err\<close> it throws a
  plain \<open>Error\<close> (its name is \<open>Error\<close>; \<open>errors.ts\<close> has no \<open>UnwrapError\<close>) whose
  message is the error list, as \<open>getErrors\<close> gives it, joined with \<open>", "\<close>. No other
  operation of the Result model raises of its own: \<open>isOk\<close>, \<open>isErr\<close>, \<open>unwrapOr\<close>,
  \<open>getErrors\<close>, \<open>ok\<close>, \<open>err\<close> and \<open>errMessage\<close> are total, and \<open>map\<close> raises only
  the fault of its callback, on an \<open>Ok\<close>.
\<close>

theorem unwrap_value_or_Error:
  "unwrap (Ok v) = Inr v
 \<and> unwrap (Err e) = Inl (ErrorInstance \<lparr>name = ''Error'', message = join '', '' (getErrors e)\<rparr>)
 \<and> (fst (map_result fn r s) = Inl x \<longrightarrow> (\<exists>v. r = Ok v \<and> fst (fn v s) = Inl x))"
proof -
  have u: "unwrap (Err e) =
      Inl (ErrorInstance \<lparr>name = ''Error'', message = join '', '' (getErrors e)\<rparr>)"
    by (cases e) (simp_all add: Error_def)
  have m: "fst (map_result fn r s) = Inl x \<longrightarrow> (\<exists>v. r = Ok v \<and> fst (fn v s) = Inl x)"
    by (cases r) (auto split: prod.splits sum.splits)
  from u m show ?thesis by simp
qed

text \<open>
  The amended C6 on \<open>ok(42)\<close>, on \<open>err(['a', 'b'])\<close>, and on \<open>map\<close> with a callback
  that throws.
\<close>

theorem unwrap_value_or_Error_witness:
  "unwrap (Ok (42 :: int)) = Inr 42
 \<and> unwrap (err [''a'', ''b''] :: int Result)
      = Inl (ErrorInstance \<lparr>name = ''Error'', message = ''a, b''\<rparr>)
 \<and> fst (map_result (\<lambda>v s. (Inl (NonError ''boom''), s)) (Ok (1 :: int)) ([] :: string list)
        :: (thrown + int Result) \<times> string list) = Inl (NonError ''boom'')"
proof -
  have m: "fst (map_result (\<lambda>v s. (Inl (NonError ''boom''), s)) (Ok (1 :: int)) ([] :: string list)
        :: (thrown + int Result) \<times> string list) = Inl (NonError ''boom'')"
    by simp
  from unwrap_value_or_Error [where v = "42 :: int" and e = "ErrorArray [''a'', ''b'']"
      and fn = "\<lambda>v s. (Inl (NonError ''boom''), s)" and r = "Ok (1 :: int)"
      and s = "[] :: string list" and x = "NonError ''boom''"] m
  show ?thesis by (simp add: err_def)
qed

text \<open>
  C6 as stated fails: what \<open>unwrap()\<close> throws on \<open>err(['a', 'b'])\<close> is not an
  \<open>UnwrapError\<close> with the joined message.
\<close>

theorem unwrap_not_UnwrapError_counterexample:
  "unwrap (err [''a'', ''b''] :: int Result)
     \<noteq> Inl (ErrorInstance \<lparr>name = ''UnwrapError'', message = ''a, b''\<rparr>)"
  by (simp add: err_def Error_def)

text \<open>
  C7. \<open>map(f)\<close> on \<open>Ok(v)\<close> returns \<open>Ok(f(v))\<close>, for a pure \<open>f\<close> and for a callback
  that changes the state and returns \<open>u\<close>. \<open>map(f)\<close> on an \<open>Err\<close> returns the same
  \<open>Err\<close> and leaves the state as it was, whatever the callback would do: it is not
  invoked.
\<close>

theorem map_on_Ok_and_Err:
  "map_result (\<lambda>x s. (Inr (f x), s)) (Ok v) s = (Inr (Ok (f v)), s)
 \<and> (fn v s = (Inr u, s') \<longrightarrow> map_result fn (Ok v) s = (Inr (Ok u), s'))
 \<and> map_result fn (Err e) s = (Inr (Err e), s)"
  by simp

text \<open>
  C7 with a callback that records its call: on \<open>ok(5)\<close> it runs once, on
  \<open>err(['error'])\<close> nothing is recorded and nothing is raised.
\<close>

theorem map_on_Ok_and_Err_witness:
  "map_result (\<lambda>x s. (Inr (x * 2), s @ [''f''])) (Ok (5 :: int)) [] = (Inr (Ok 10), [''f''])
 \<and> map_result (\<lambda>x s. (Inl (NonError ''boom''), s @ [''f''])) (err [''error''] :: int Result) []
    = (Inr (err [''error''] :: int Result), [])"
proof -
  have f: "(\<lambda>x s. (Inr (x * 2), s @ [''f''])) (5 :: int) ([] :: string list)
      = (Inr (10 :: int) :: thrown + int, [''f''])"
    by simp
  note inst = map_on_Ok_and_Err [where fn = "\<lambda>x s. (Inr (x * 2), s @ [''f''])" and v = "5 :: int"
      and s = "[] :: string list" and u = "10 :: int" and s' = "[''f'']"]
  note inst2 = map_on_Ok_and_Err [where fn = "\<lambda>x s. (Inl (NonError ''boom''), s @ [''f''])"
      and e = "ErrorArray [''error'']" and s = "[] :: string list"]
  from inst f have a: "map_result (\<lambda>x s. (Inr (x * 2), s @ [''f''])) (Ok (5 :: int)) []
      = (Inr (Ok 10), [''f''])"
    by simp
  from inst2 have b: "map_result (\<lambda>x s. (Inl (NonError ''boom''), s @ [''f'']))
      (err [''error''] :: int Result) [] = (Inr (err [''error''] :: int Result), [])"
    by (simp add: err_def)
  from a b show ?thesis by simp
qed

text \<open>
  C8. On both buses \<open>register\<close> is a total update of the registry (it has no
  failing branch and yields only the changed bus). Registering twice under one
  identifier gives the bus that the second registration alone gives: the lookup finds
  the second handler, the behaviors are untouched, and \<open>execute\<close> dispatches a command
  or query of that identifier to the second handler.
\<close>

theorem register_overwrites:
  "register i h_new (register i h_old cbus) = register i h_new cbus
 \<and> CommandBus.handlers (register i h_new (register i h_old cbus)) i = Some h_new
 \<and> CommandBus.behaviors (register i h_new cbus) = CommandBus.behaviors cbus
 \<and> query_register i qh_new (query_register i qh_old qbus) = query_register i qh_new qbus
 \<and> QueryBus.handlers (query_register i qh_new (query_register i qh_old qbus)) i = Some qh_new
 \<and> QueryBus.behaviors (query_register i qh_new qbus) = QueryBus.behaviors qbus
 \<and> (constructor_name command = i \<longrightarrow>
      execute (register i h_new (register i h_old cbus)) command =
        foldr (\<lambda>b next cmd. b cmd next) (CommandBus.behaviors cbus) (handler_stage h_new) command)
 \<and> (constructor_name query = i \<longrightarrow>
      query_execute (query_register i qh_new (query_register i qh_old qbus)) query =
        foldr (\<lambda>b next q. b q next) (QueryBus.behaviors qbus) qh_new query)"
proof -
  have c: "constructor_name command = i \<longrightarrow>
      execute (register i h_new (register i h_old cbus)) command =
        foldr (\<lambda>b next cmd. b cmd next) (CommandBus.behaviors cbus) (handler_stage h_new) command"
  proof
    assume n: "constructor_name command = i"
    have "CommandBus.handlers (register i h_new (register i h_old cbus)) (constructor_name command)
        = Some h_new"
      using n by (simp add: register_def)
    from execute_registered [OF this] show "execute (register i h_new (register i h_old cbus)) command =
        foldr (\<lambda>b next cmd. b cmd next) (CommandBus.behaviors cbus) (handler_stage h_new) command"
      by (simp add: register_def)
  qed
  have q: "constructor_name query = i \<longrightarrow>
      query_execute (query_register i qh_new (query_register i qh_old qbus)) query =
        foldr (\<lambda>b next q. b q next) (QueryBus.behaviors qbus) qh_new query"
  proof
    assume n: "constructor_name query = i"
    have "QueryBus.handlers (query_register i qh_new (query_register i qh_old qbus))
        (constructor_name query) = Some qh_new"
      using n by (simp add: query_register_def)
    from query_execute_registered [OF this]
    show "query_execute (query_register i qh_new (query_register i qh_old qbus)) query =
        foldr (\<lambda>b next q. b q next) (QueryBus.behaviors qbus) qh_new query"
      by (simp add: query_register_def)
  qed
  from c q show ?thesis
    by (simp add: register_def query_register_def)
qed

text \<open>
  C8 on the test handlers: the handler registered last answers.
\<close>

theorem register_overwrites_witness:
  "execute (register ''TestCommand'' ThrowingHandler
       (register ''TestCommand'' TestCommandHandler new_CommandBus)) (new_TestCommand 5) []
     = (Inr (err [''Unexpected error'']), [''H''])
 \<and> query_execute (query_register ''TestQuery'' TestQueryHandler
       (query_register ''TestQuery'' ThrowingQueryHandler new_QueryBus)) (new_TestQuery 5) []
     = (Inr 15, [''H''])"
proof -
  let ?c = "new_TestCommand 5 :: string list TestCommand"
  let ?q = "new_TestQuery 5"
  note inst = register_overwrites [where i = "''TestCommand''" and command = ?c
      and h_old = TestCommandHandler and h_new = ThrowingHandler and cbus = new_CommandBus]
  note qinst = register_overwrites [where i = "''TestQuery''" and query = ?q
      and qh_old = ThrowingQueryHandler and qh_new = TestQueryHandler and qbus = new_QueryBus]
  have cn: "constructor_name ?c = ''TestCommand''"
    by (simp add: new_TestCommand_def)
  have qn: "constructor_name ?q = ''TestQuery''"
    by (simp add: new_TestQuery_def)
  from inst cn have c: "execute (register ''TestCommand'' ThrowingHandler
       (register ''TestCommand'' TestCommandHandler new_CommandBus)) ?c =
      foldr (\<lambda>b next cmd. b cmd next) (CommandBus.behaviors new_CommandBus)
        (handler_stage ThrowingHandler) ?c"
    by blast
  from qinst qn have q: "query_execute (query_register ''TestQuery'' TestQueryHandler
       (query_register ''TestQuery'' ThrowingQueryHandler new_QueryBus)) ?q =
      foldr (\<lambda>b next q. b q next) (QueryBus.behaviors new_QueryBus) TestQueryHandler ?q"
    by blast
  show ?thesis
    unfolding c q
    by (simp add: new_CommandBus_def new_QueryBus_def handler_stage_def ThrowingHandler_def
        TestQueryHandler_def new_TestQuery_def Error_def)
qed

text \<open>
  C9 (as amended). \<open>ValidationCommandBehavior\<close> on a command that has a \<open>validate\<close>
  function calls it. When \<open>validate()\<close> resolves and reports invalid, the behavior
  resolves with \<open>Err\<close> of the validator's error list (of \<open>['Validation failed']\<close> when
  the validator gives no list) in the state \<open>validate\<close> left, whatever \<open>next\<close> is:
  \<open>next\<close> is not called and nothing is raised. When it resolves valid or empty, and
  when the command has no \<open>validate\<close>, the behavior returns \<open>next(command)\<close>. When
  \<open>validate()\<close> itself raises, the behavior rejects with that fault and \<open>next\<close> is not
  called.
\<close>

theorem validation_short_circuits:
  "(validate command = Some f \<and> f s = (Inr (Some v), s') \<and> \<not> isValid v \<and> errors v = Some es \<longrightarrow>
      ValidationCommandBehavior command next_stage s = (Inr (Err (ErrorArray es)), s'))
 \<and> (validate command = Some f \<and> f s = (Inr (Some v), s') \<and> \<not> isValid v \<and> errors v = None \<longrightarrow>
      ValidationCommandBehavior command next_stage s
        = (Inr (Err (ErrorArray [''Validation failed''])), s'))
 \<and> (validate command = Some f \<and> f s = (Inr (Some v), s') \<and> \<not> isValid v \<longrightarrow>
      ValidationCommandBehavior command next_stage s = ValidationCommandBehavior command other_stage s)
 \<and> (validate command = Some f \<and> f s = (Inr (Some v), s') \<and> isValid v \<longrightarrow>
      ValidationCommandBehavior command next_stage s = next_stage command s')
 \<and> (validate command = Some f \<and> f s = (Inr None, s') \<longrightarrow>
      ValidationCommandBehavior command next_stage s = next_stage command s')
 \<and> (validate command = None \<longrightarrow>
      ValidationCommandBehavior command next_stage s = next_stage command s)
 \<and> (validate command = Some f \<and> f s = (Inl e, s') \<longrightarrow>
      ValidationCommandBehavior command next_stage s = (Inl e, s'))"
  by (simp add: ValidationCommandBehavior_def err_def)

text \<open>
  The amended C9 on the \<open>TestCommand\<close> of the unit tests: \<open>-5\<close> is rejected and the
  handler records nothing, \<open>5\<close> reaches the handler; end to end through \<open>execute\<close>;
  and on a command whose \<open>validate()\<close> throws.
\<close>

theorem validation_short_circuits_witness:
  "ValidationCommandBehavior (new_TestCommand (- 5)) (handler_stage TestCommandHandler) []
     = (Inr (Err (ErrorArray [''Value must be positive''])), [])
 \<and> ValidationCommandBehavior (new_TestCommand 5) (handler_stage TestCommandHandler) []
     = (Inr (Ok 10), [''H''])
 \<and> execute (use ValidationCommandBehavior
       (register ''TestCommand'' TestCommandHandler new_CommandBus)) (new_TestCommand (- 5)) []
     = (Inr (Err (ErrorArray [''Value must be positive''])), [])
 \<and> ValidationCommandBehavior (new_CrashingCommand 5) (handler_stage TestCommandHandler) []
     = (Inl (ErrorInstance \<lparr>name = ''Error'', message = ''validate crashed''\<rparr>), [])"
proof -
  let ?bad = "new_TestCommand (- 5) :: string list TestCommand"
  let ?good = "new_TestCommand 5 :: string list TestCommand"
  let ?crash = "new_CrashingCommand 5 :: string list TestCommand"
  let ?inner = "handler_stage TestCommandHandler"
  let ?bus = "use ValidationCommandBehavior
      (register ''TestCommand'' TestCommandHandler new_CommandBus)"
  have vb: "validate ?bad = Some (TestCommand_validate (- 5))"
    by (simp add: new_TestCommand_def)
  have rb: "TestCommand_validate (- 5) ([] :: string list) =
      (Inr (Some \<lparr>isValid = False, errors = Some [''Value must be positive'']\<rparr>), [])"
    by (simp add: TestCommand_validate_def)
  have vg: "validate ?good = Some (TestCommand_validate 5)"
    by (simp add: new_TestCommand_def)
  have rg: "TestCommand_validate 5 ([] :: string list) =
      (Inr (Some \<lparr>isValid = True, errors = None\<rparr>), [])"
    by (simp add: TestCommand_validate_def)
  have vc: "validate ?crash = Some throwing_validate"
    by (simp add: new_CrashingCommand_def)
  have rc: "throwing_validate ([] :: string list) =
      (Inl (ErrorInstance (Error ''validate crashed'')), [])"
    by (simp add: throwing_validate_def)
  from validation_short_circuits [where command = ?bad and f = "TestCommand_validate (- 5)"
      and s = "[]" and s' = "[]" and next_stage = ?inner
      and v = "\<lparr>isValid = False, errors = Some [''Value must be positive'']\<rparr>"
      and es = "[''Value must be positive'']"] vb rb
  have bad: "ValidationCommandBehavior ?bad ?inner []
      = (Inr (Err (ErrorArray [''Value must be positive''])), [])"
    by simp
  from validation_short_circuits [where command = ?good and f = "TestCommand_validate 5"
      and s = "[]" and s' = "[]" and next_stage = ?inner
      and v = "\<lparr>isValid = True, errors = None\<rparr>"] vg rg
  have "ValidationCommandBehavior ?good ?inner [] = ?inner ?good []"
    by simp
  then have good: "ValidationCommandBehavior ?good ?inner [] = (Inr (Ok 10), [''H''])"
    by (simp add: handler_stage_def TestCommandHandler_def new_TestCommand_def ok_def)
  from validation_short_circuits [where command = ?crash and f = throwing_validate
      and s = "[]" and s' = "[]" and next_stage = ?inner
      and e = "ErrorInstance (Error ''validate crashed'')"] vc rc
  have crash: "ValidationCommandBehavior ?crash ?inner []
      = (Inl (ErrorInstance (Error ''validate crashed'')), [])"
    by blast
  have h: "CommandBus.handlers ?bus (constructor_name ?bad) = Some TestCommandHandler"
    by (simp add: use_def register_def new_CommandBus_def new_TestCommand_def)
  have "execute ?bus ?bad = ValidationCommandBehavior ?bad ?inner"
    by (simp add: execute_registered [OF h]) (simp add: use_def register_def new_CommandBus_def)
  with bad have e2e: "execute ?bus ?bad []
      = (Inr (Err (ErrorArray [''Value must be positive''])), [])"
    by simp
  from bad good e2e crash show ?thesis by (simp add: Error_def)
qed

text \<open>
  C9 as stated fails: the command has a \<open>validate\<close> function that throws; the
  behavior neither returns an \<open>Err\<close> nor calls \<open>next\<close> (which would have resolved
  and recorded \<open>H\<close>), it rejects.
\<close>

theorem throwing_validate_counterexample:
  "validate (new_CrashingCommand 5 :: string list TestCommand) = Some throwing_validate
 \<and> ValidationCommandBehavior (new_CrashingCommand 5) (handler_stage TestCommandHandler) []
     = (Inl (ErrorInstance \<lparr>name = ''Error'', message = ''validate crashed''\<rparr>), [])
 \<and> handler_stage TestCommandHandler (new_CrashingCommand 5) [] = (Inr (Ok 10), [''H''])"
  by (simp add: ValidationCommandBehavior_def new_CrashingCommand_def throwing_validate_def
      handler_stage_def TestCommandHandler_def ok_def Error_def)

text \<open>
  C10. When the handler throws a value that is not an \<open>Error\<close> instance, the
  innermost stage resolves with \<open>Err(['Command execution failed'])\<close>: not with the
  text of the thrown value, and the same for any two such values, so the thrown value
  cannot be read back from the result. \<open>execute\<close> on a bus without behaviors returns
  just that.
\<close>

theorem non_Error_fault_gets_fixed_message:
  "(H cmd s = (Inl (NonError v), s') \<longrightarrow>
      handler_stage H cmd s = (Inr (err [''Command execution failed'']), s'))
 \<and> (H cmd s = (Inl (NonError v), s') \<and> v \<noteq> ''Command execution failed'' \<longrightarrow>
      handler_stage H cmd s \<noteq> (Inr (err [v]), s'))
 \<and> (H cmd s = (Inl (NonError v), s') \<and> H' cmd s = (Inl (NonError v'), s') \<longrightarrow>
      handler_stage H cmd s = handler_stage H' cmd s)
 \<and> (CommandBus.handlers bus (constructor_name command) = Some H \<and>
      CommandBus.behaviors bus = [] \<and> H command s = (Inl (NonError v), s') \<longrightarrow>
      execute bus command s = (Inr (err [''Command execution failed'']), s'))"
proof -
  have fixed: "H cmd s = (Inl (NonError v), s') \<longrightarrow>
      handler_stage H cmd s = (Inr (err [''Command execution failed'']), s')"
    by (simp add: handler_stage_def)
  have not_text: "H cmd s = (Inl (NonError v), s') \<and> v \<noteq> ''Command execution failed'' \<longrightarrow>
      handler_stage H cmd s \<noteq> (Inr (err [v]), s')"
    by (auto simp: handler_stage_def err_def)
  have same: "H cmd s = (Inl (NonError v), s') \<and> H' cmd s = (Inl (NonError v'), s') \<longrightarrow>
      handler_stage H cmd s = handler_stage H' cmd s"
    by (simp add: handler_stage_def)
  have through: "CommandBus.handlers bus (constructor_name command) = Some H \<and>
      CommandBus.behaviors bus = [] \<and> H command s = (Inl (NonError v), s') \<longrightarrow>
      execute bus command s = (Inr (err [''Command execution failed'']), s')"
    by (simp add: execute_registered handler_stage_def)
  from fixed not_text same through show ?thesis by blast
qed

text \<open>
  C10 on a handler that throws the string \<open>boom\<close>, and a second one that throws
  \<open>bang\<close>.
\<close>

theorem non_Error_fault_gets_fixed_message_witness:
  "execute (register ''TestCommand'' StringThrowingHandler new_CommandBus) (new_TestCommand 5) []
     = (Inr (err [''Command execution failed'']), [''H''])
 \<and> handler_stage StringThrowingHandler (new_TestCommand 5) [] \<noteq> (Inr (err [''boom'']), [''H''])
 \<and> handler_stage StringThrowingHandler (new_TestCommand 5) []
     = handler_stage (\<lambda>c s. (Inl (NonError ''bang''), s @ [''H'']))
         (new_TestCommand 5 :: string list TestCommand) []"
proof -
  let ?bus = "register ''TestCommand'' StringThrowingHandler new_CommandBus"
  let ?c = "new_TestCommand 5 :: string list TestCommand"
  let ?other = "(\<lambda>c s. (Inl (NonError ''bang''), s @ [''H'']))
      :: (string list TestCommand, int, string list) ICommandHandler"
  have h: "CommandBus.handlers ?bus (constructor_name ?c) = Some StringThrowingHandler"
    by (simp add: register_def new_CommandBus_def new_TestCommand_def)
  have b: "CommandBus.behaviors ?bus = []"
    by (simp add: register_def new_CommandBus_def)
  have t: "StringThrowingHandler ?c [] = (Inl (NonError ''boom''), [''H''])"
    by (simp add: StringThrowingHandler_def)
  have t': "?other ?c [] = (Inl (NonError ''bang''), [''H''])"
    by simp
  have ne: "''boom'' \<noteq> ''Command execution failed''"
    by simp
  note inst = non_Error_fault_gets_fixed_message [where H = StringThrowingHandler and cmd = ?c
      and command = ?c and s = "[]" and s' = "[''H'']" and v = "''boom''" and bus = ?bus
      and H' = ?other and v' = "''bang''"]
  from inst h b t have one: "execute ?bus ?c [] = (Inr (err [''Command execution failed'']), [''H''])"
    by blast
  from inst t ne have two: "handler_stage StringThrowingHandler ?c [] \<noteq> (Inr (err [''boom'']), [''H''])"
    by blast
  from inst t t' have three: "handler_stage StringThrowingHandler ?c [] = handler_stage ?other ?c []"
    by blast
  from one two three show ?thesis by blast
qed

end
